theory Spec2Isabelle
  imports Complex_Main "HOL-Library.Char_ord" "HOL-Library.List_Lexorder"
    "HOL-Library.Option_ord" "HOL-Library.Multiset"
begin

section \<open>Healthcare data analysis: the EDA pipeline of notebooks/analysis.py\<close>

text \<open>
  The script loads one CSV table with pandas, derives a length-of-stay column, and runs
  seven analyzers that print to the console and save chart images.

  Conventions of the embedding.
  \<^item> A table is the ordered list of its column labels (\<open>df.columns\<close>) and the list of its
    rows. A row is a record with one field per column the script reads; the field of a column
    whose label is not in \<open>columns\<close> is never read by the model (a lookup of an absent label
    raises \<open>KeyError\<close> first).
  \<^item> A missing cell (pandas \<open>NaN\<close>, \<open>NaT\<close>) is \<open>None\<close>.
  \<^item> Numeric cells are exact rationals: float64 rounding error is not modelled.
  \<^item> A timestamp is the integer count of nanoseconds since 1970-01-01 (the value pandas
    stores); the int64 range of that count is not modelled.
  \<^item> Console output and the file system are an explicit state that every step threads.
  \<^item> Calls into pandas and matplotlib on columns that exist are taken to succeed. The failures
    that are modelled are the ones visible in the script: \<open>sys.exit(1)\<close> in \<open>load_data\<close>, a
    failing \<open>read_csv\<close>, and the \<open>KeyError\<close> of indexing a table by an absent column label.
\<close>

subsection \<open>Data model\<close>

type_synonym timestamp = int

record 't row =
  Patient_ID :: "string option"
  Department :: "string option"
  Admission_Date :: "'t option"
  Discharge_Date :: "'t option"
  Length_of_Stay :: "rat option"
  Cost :: "rat option"
  Readmission :: "string option"

record 't dataframe =
  columns :: "string list"
  rows :: "'t row list"

text \<open>\<open>col in df.columns\<close>\<close>

definition has_col :: "'t dataframe \<Rightarrow> string \<Rightarrow> bool" where
  "has_col df c = (c \<in> set (columns df))"

subsection \<open>Deriver (lines 162 to 166 of \<open>main\<close>)\<close>

definition ns_per_day :: int where
  "ns_per_day = 86400000000000"

text \<open>\<open>Timedelta.days\<close>: the floor of the difference in whole days (negative differences round
  towards minus infinity, as \<open>div\<close> on \<open>int\<close> does).\<close>

definition td_days :: "int \<Rightarrow> int" where
  "td_days delta = delta div ns_per_day"

text \<open>\<open>calc_los = (df["Discharge_Date"] - df["Admission_Date"]).dt.days\<close>, row by row: the
  difference with a \<open>NaT\<close> operand is \<open>NaT\<close>, whose \<open>.days\<close> is \<open>NaN\<close>.\<close>

definition calc_los :: "timestamp row \<Rightarrow> int option" where
  "calc_los r =
     (case Discharge_Date r of
        None \<Rightarrow> None
      | Some d \<Rightarrow> (case Admission_Date r of None \<Rightarrow> None | Some a \<Rightarrow> Some (td_days (d - a))))"

text \<open>\<open>Series.clip(lower=lo)\<close> on one cell: a missing cell stays missing.\<close>

definition clip_lower :: "int \<Rightarrow> int option \<Rightarrow> rat option" where
  "clip_lower lo v = map_option (\<lambda>x. of_int (max lo x)) v"

text \<open>\<open>df["Length_of_Stay"] = s\<close>: replaces the column, or appends the label when it is new.\<close>

definition assign_los :: "timestamp dataframe \<Rightarrow> (timestamp row \<Rightarrow> rat option) \<Rightarrow> timestamp dataframe" where
  "assign_los df f =
     \<lparr>columns = (if has_col df ''Length_of_Stay'' then columns df
                 else columns df @ [''Length_of_Stay'']),
      rows = map (\<lambda>r. r\<lparr>Length_of_Stay := f r\<rparr>) (rows df)\<rparr>"

text \<open>\<open>df["Length_of_Stay"].isna().any()\<close>\<close>

definition los_isna_any :: "'t dataframe \<Rightarrow> bool" where
  "los_isna_any df = list_ex (\<lambda>r. Length_of_Stay r = None) (rows df)"

definition main_derive_los :: "timestamp dataframe \<Rightarrow> timestamp dataframe" where
  "main_derive_los df =
     (if has_col df ''Admission_Date'' \<and> has_col df ''Discharge_Date'' then
        (if \<not> has_col df ''Length_of_Stay'' \<or> los_isna_any df
         then assign_los df (\<lambda>r. clip_lower 0 (calc_los r))
         else df)
      else df)"

subsection \<open>Console, file system and exceptions\<close>

datatype exn = SystemExit nat | KeyError string | ReadError

text \<open>One \<open>print\<close> call. \<open>Text\<close> is a string the script builds itself. The other constructors
  are objects that pandas renders (\<open>to_string\<close>, number formatting): the payload is the object,
  its text layout is not modelled. \<open>Rendered\<close> names the source expression of an object whose
  content no property below depends on.\<close>

datatype printed =
    Text string
  | Text_nat string nat
  | Rendered string
  | Counts_str "(string \<times> nat) list"
  | Means_str "(string \<times> rat option) list"
  | Pct_str "(string \<times> rat) list"
  | Pct_table_str "string list" "(string \<times> rat option list) list"
  | Monthly_str "(timestamp \<times> nat) list"

record world =
  paths :: "string set"
  stdout :: "printed list"

text \<open>What the script takes from its environment: \<open>Path.resolve\<close>, \<open>pd.read_csv\<close> (\<open>None\<close>
  when it raises) and \<open>pd.to_datetime\<close> on one cell (\<open>None\<close> for an unparseable cell, as
  \<open>errors="coerce"\<close> asks).\<close>

record env =
  resolve :: "string \<Rightarrow> string"
  read_csv :: "string \<Rightarrow> string dataframe option"
  to_datetime :: "string \<Rightarrow> timestamp option"

type_synonym step = "world \<Rightarrow> exn option \<times> world"

definition print :: "printed \<Rightarrow> step" where
  "print x w = (None, w\<lparr>stdout := stdout w @ [x]\<rparr>)"

text \<open>Statement sequencing: an exception ends the sequence and keeps the state reached.\<close>

fun seqs :: "step list \<Rightarrow> step" where
  "seqs [] w = (None, w)"
| "seqs (s # ss) w = (case s w of (Some e, w') \<Rightarrow> (Some e, w') | (None, w') \<Rightarrow> seqs ss w')"

text \<open>\<open>df[c]\<close>, \<open>df[[c1, c2]]\<close>, \<open>groupby(c)\<close>: the first absent label raises.\<close>

fun require_cols :: "'t dataframe \<Rightarrow> string list \<Rightarrow> step" where
  "require_cols df [] w = (None, w)"
| "require_cols df (c # cs) w = (if has_col df c then require_cols df cs w else (Some (KeyError c), w))"

text \<open>The exit status of the interpreter: 0 when \<open>main\<close> returns, the argument of \<open>sys.exit\<close>,
  and 1 for any other uncaught exception.\<close>

fun exit_status :: "exn option \<Rightarrow> nat" where
  "exit_status None = 0"
| "exit_status (Some (SystemExit n)) = n"
| "exit_status (Some _) = 1"

subsection \<open>Configuration (lines 22 to 24)\<close>

definition DATA_PATH :: "world \<Rightarrow> string" where
  "DATA_PATH w =
     (if ''notebooks'' \<in> paths w
      then ''C:/Users/ag5488/Documents/VSC/Healthcare_Data_Analysis_Project/data/hospital_data.csv''
      else ''data/hospital_data.csv'')"

definition FIG_DIR :: string where
  "FIG_DIR = ''reports/figs''"

text \<open>\<open>FIG_DIR.mkdir(parents=True, exist_ok=True)\<close>\<close>

definition mkdir_FIG_DIR :: "world \<Rightarrow> world" where
  "mkdir_FIG_DIR w = w\<lparr>paths := paths w \<union> {''reports'', FIG_DIR}\<rparr>"

subsection \<open>Helpers (lines 27 to 45)\<close>

definition h1 :: "string \<Rightarrow> step" where
  "h1 title = seqs
     [print (Text (CHR 0x0A # replicate (length title) CHR ''='')),
      print (Text title),
      print (Text (replicate (length title) CHR ''=''))]"

definition h2 :: "string \<Rightarrow> step" where
  "h2 title = seqs
     [print (Text (CHR 0x0A # title)),
      print (Text (replicate (length title) CHR ''-''))]"

text \<open>\<open>plt.savefig(out, dpi=140)\<close> followed by the \<open>[saved]\<close> line; \<open>save_bar\<close> and the two
  analyzers that save inline do exactly this with \<open>out = FIG_DIR / filename\<close>.\<close>

definition savefig :: "string \<Rightarrow> world \<Rightarrow> exn option \<times> world" where
  "savefig out w = (None, w\<lparr>paths := insert out (paths w)\<rparr>)"

definition save_bar :: "env \<Rightarrow> string \<Rightarrow> step" where
  "save_bar e filename =
     (let out = FIG_DIR @ ''/'' @ filename
      in seqs [savefig out, print (Text (''[saved] '' @ resolve e out))])"

subsection \<open>Loader (lines 48 to 58)\<close>

definition parse_dates :: "env \<Rightarrow> string dataframe \<Rightarrow> timestamp dataframe" where
  "parse_dates e df =
     \<lparr>columns = columns df,
      rows = map (\<lambda>r.
        \<lparr>Patient_ID = Patient_ID r,
         Department = Department r,
         Admission_Date =
           (if has_col df ''Admission_Date'' then Option.bind (Admission_Date r) (to_datetime e)
            else None),
         Discharge_Date =
           (if has_col df ''Discharge_Date'' then Option.bind (Discharge_Date r) (to_datetime e)
            else None),
         Length_of_Stay = Length_of_Stay r,
         Cost = Cost r,
         Readmission = Readmission r\<rparr>) (rows df)\<rparr>"

definition load_data :: "env \<Rightarrow> string \<Rightarrow> world \<Rightarrow> (exn + timestamp dataframe) \<times> world" where
  "load_data e path w =
     (if path \<notin> paths w then
        (case seqs
           [print (Text (''Oops '' @ [CHR 0xE2, CHR 0x80, CHR 0x94] @ '' I can'' @ [CHR 0x27]
                         @ ''t find the dataset at: '' @ resolve e path)),
            print (Text ''Make sure hospital_data.csv is in the /data folder.'')] w
         of (_, w') \<Rightarrow> (Inl (SystemExit 1), w'))
      else
        (case read_csv e path of
           None \<Rightarrow> (Inl ReadError, w)
         | Some raw \<Rightarrow> (Inr (parse_dates e raw), w)))"

subsection \<open>Aggregation primitives of pandas\<close>

text \<open>The non-missing cells of a column, in row order.\<close>

definition dropna :: "'a option list \<Rightarrow> 'a list" where
  "dropna xs = concat (map (\<lambda>x. case x of None \<Rightarrow> [] | Some v \<Rightarrow> [v]) xs)"

text \<open>Distinct values in order of first appearance.\<close>

fun uniq :: "'a list \<Rightarrow> 'a list" where
  "uniq [] = []"
| "uniq (x # xs) = x # filter (\<lambda>y. y \<noteq> x) (uniq xs)"

text \<open>\<open>Series.sort_values(ascending=False)\<close> on a labelled series: pandas reverses the
  entries, sorts them ascending and reverses the result; missing values end up last (\<open>None\<close>
  is the least element of the order on \<open>option\<close>).\<close>

definition sort_values_desc :: "('k \<times> 'v::linorder) list \<Rightarrow> ('k \<times> 'v) list" where
  "sort_values_desc s = rev (sort_key snd (rev s))"

text \<open>\<open>Series.value_counts()\<close>: missing cells dropped, one entry per distinct value, sorted by
  count, largest first.\<close>

definition value_counts :: "'a option list \<Rightarrow> ('a \<times> nat) list" where
  "value_counts xs =
     (let vs = dropna xs
      in sort_values_desc (map (\<lambda>v. (v, count_list vs v)) (uniq vs)))"

text \<open>\<open>Series.value_counts(normalize=True)\<close>: the counts divided by the number of non-missing
  cells.\<close>

definition value_counts_normalize :: "'a option list \<Rightarrow> ('a \<times> rat) list" where
  "value_counts_normalize xs =
     map (\<lambda>(v, n). (v, of_nat n / of_nat (length (dropna xs)))) (value_counts xs)"

text \<open>The group keys of \<open>groupby(key)\<close>: the distinct non-missing keys, sorted ascending.\<close>

definition group_keys :: "'k::linorder option list \<Rightarrow> 'k list" where
  "group_keys ks = sort (remdups (dropna ks))"

definition in_dept :: "string \<Rightarrow> 't row \<Rightarrow> bool" where
  "in_dept d r = (Department r = Some d)"

text \<open>\<open>numpy.round\<close> to \<open>n\<close> decimals: scale, round half to even, scale back.\<close>

definition round_half_even :: "rat \<Rightarrow> int" where
  "round_half_even x =
     (let f = \<lfloor>x\<rfloor>; d = x - of_int f
      in if d < 1 / 2 then f else if 1 / 2 < d then f + 1 else if even f then f else f + 1)"

definition round_dp :: "nat \<Rightarrow> rat \<Rightarrow> rat" where
  "round_dp n x = of_int (round_half_even (x * 10 ^ n)) / 10 ^ n"

text \<open>The mean of the non-missing values; \<open>NaN\<close> when there is none.\<close>

definition mean :: "rat option list \<Rightarrow> rat option" where
  "mean xs = (let vs = dropna xs in if vs = [] then None else Some (sum_list vs / of_nat (length vs)))"

subsection \<open>Calendar months of pandas periods\<close>

text \<open>Year and month of a day count since 1970-01-01 in the proleptic Gregorian calendar, and
  the day count of a calendar date.\<close>

definition civil_year_month :: "int \<Rightarrow> int \<times> int" where
  "civil_year_month days =
     (let z = days + 719468;
          era = z div 146097;
          doe = z - era * 146097;
          yoe = (doe - doe div 1460 + doe div 36524 - doe div 146096) div 365;
          doy = doe - (365 * yoe + yoe div 4 - yoe div 100);
          mp = (5 * doy + 2) div 153;
          m = (if mp < 10 then mp + 3 else mp - 9);
          y = yoe + era * 400
      in (if m \<le> 2 then y + 1 else y, m))"

definition days_from_civil :: "int \<Rightarrow> int \<Rightarrow> int \<Rightarrow> int" where
  "days_from_civil y0 m d =
     (let y = (if m \<le> 2 then y0 - 1 else y0);
          era = y div 400;
          yoe = y - era * 400;
          doy = (153 * (if 2 < m then m - 3 else m + 9) + 2) div 5 + d - 1;
          doe = yoe * 365 + yoe div 4 - yoe div 100 + doy
      in era * 146097 + doe - 719468)"

text \<open>\<open>.dt.to_period("M").dt.to_timestamp()\<close>: the first instant of the timestamp's month.\<close>

definition year_month :: "timestamp \<Rightarrow> timestamp" where
  "year_month t =
     (case civil_year_month (t div ns_per_day) of (y, m) \<Rightarrow> days_from_civil y m 1 * ns_per_day)"

subsection \<open>Average cost per department (line 89)\<close>

text \<open>\<open>df.groupby("Department")["Cost"].mean().sort_values(ascending=False).round(2)\<close>\<close>

definition dept_cost :: "'t row list \<Rightarrow> (string \<times> rat option) list" where
  "dept_cost rs =
     map (\<lambda>(d, m). (d, map_option (round_dp 2) m))
       (sort_values_desc
          (map (\<lambda>d. (d, mean (map Cost (filter (in_dept d) rs))))
             (group_keys (map Department rs))))"

subsection \<open>Readmission rates (lines 98 to 115)\<close>

text \<open>\<open>(df["Readmission"].value_counts(normalize=True) * 100).round(1)\<close>\<close>

definition overall :: "'t row list \<Rightarrow> (string \<times> rat) list" where
  "overall rs = map (\<lambda>(c, p). (c, round_dp 1 (p * 100))) (value_counts_normalize (map Readmission rs))"

text \<open>The long table after \<open>reset_index()\<close>: one line (department, category, percentage) for
  every category that occurs in the department, the percentage taken within the department.\<close>

definition dept_pct :: "'t row list \<Rightarrow> (string \<times> string \<times> rat) list" where
  "dept_pct rs =
     concat (map (\<lambda>d. map (\<lambda>(c, p). (d, c, p * 100))
                        (value_counts_normalize (map Readmission (filter (in_dept d) rs))))
               (group_keys (map Department rs)))"

text \<open>A table of percentages: the column labels and, for every index label, one cell per
  column.\<close>

record pct_frame =
  fcolumns :: "string list"
  frows :: "(string \<times> rat option list) list"

text \<open>\<open>pivot(index="Department", columns="Readmission", values="pct")\<close>: the index and the
  columns are the sorted distinct labels of the long table; a cell is the percentage of its
  (department, category) line, and \<open>NaN\<close> when the long table has no such line.\<close>

definition pivot_cell :: "(string \<times> string \<times> rat) list \<Rightarrow> string \<Rightarrow> string \<Rightarrow> rat option" where
  "pivot_cell long d c = map_of (map (\<lambda>(d, c, p). ((d, c), p)) long) (d, c)"

definition pivot :: "(string \<times> string \<times> rat) list \<Rightarrow> pct_frame" where
  "pivot long =
     (let cols = sort (remdups (map (\<lambda>(d, c, p). c) long))
      in \<lparr>fcolumns = cols,
          frows = map (\<lambda>d. (d, map (pivot_cell long d) cols))
                    (sort (remdups (map (\<lambda>(d, c, p). d) long)))\<rparr>)"

definition fillna :: "rat \<Rightarrow> pct_frame \<Rightarrow> pct_frame" where
  "fillna z f =
     f\<lparr>frows := map (\<lambda>(d, vs). (d, map (\<lambda>v. case v of None \<Rightarrow> Some z | Some x \<Rightarrow> Some x) vs))
                   (frows f)\<rparr>"

definition round_frame :: "nat \<Rightarrow> pct_frame \<Rightarrow> pct_frame" where
  "round_frame n f = f\<lparr>frows := map (\<lambda>(d, vs). (d, map (map_option (round_dp n)) vs)) (frows f)\<rparr>"

text \<open>\<open>if col not in by_dept.columns: by_dept[col] = 0.0\<close>\<close>

definition ensure_col :: "string \<Rightarrow> pct_frame \<Rightarrow> pct_frame" where
  "ensure_col c f =
     (if c \<in> set (fcolumns f) then f
      else \<lparr>fcolumns = fcolumns f @ [c], frows = map (\<lambda>(d, vs). (d, vs @ [Some 0])) (frows f)\<rparr>)"

text \<open>\<open>by_dept[cs]\<close> for labels that are all present (the loop before it ensures that).\<close>

definition select_cols :: "string list \<Rightarrow> pct_frame \<Rightarrow> pct_frame" where
  "select_cols cs f =
     \<lparr>fcolumns = cs,
      frows = map (\<lambda>(d, vs). (d, map (\<lambda>c. case map_of (zip (fcolumns f) vs) c of
                                             None \<Rightarrow> None | Some v \<Rightarrow> v) cs))
                (frows f)\<rparr>"

definition by_dept :: "'t row list \<Rightarrow> pct_frame" where
  "by_dept rs =
     select_cols [''No'', ''Yes'']
       (ensure_col ''Yes'' (ensure_col ''No'' (round_frame 1 (fillna 0 (pivot (dept_pct rs))))))"

subsection \<open>Monthly admissions (lines 142 to 146)\<close>

text \<open>The \<open>YearMonth\<close> cell of a row, and the per-month \<open>count()\<close> of \<open>Patient_ID\<close>: rows whose
  \<open>YearMonth\<close> is missing belong to no group, and \<open>count\<close> counts the non-missing cells.\<close>

definition YearMonth :: "timestamp row \<Rightarrow> timestamp option" where
  "YearMonth r = map_option year_month (Admission_Date r)"

definition monthly :: "timestamp row list \<Rightarrow> (timestamp \<times> nat) list" where
  "monthly rs =
     map (\<lambda>k. (k, length (dropna (map Patient_ID (filter (\<lambda>r. YearMonth r = Some k) rs)))))
       (group_keys (map YearMonth rs))"

subsection \<open>The analyzers (lines 61 to 155)\<close>

fun join_str :: "string \<Rightarrow> string list \<Rightarrow> string" where
  "join_str sep [] = []"
| "join_str sep [x] = x"
| "join_str sep (x # y # ys) = x @ sep @ join_str sep (y # ys)"

definition basic_overview :: "timestamp dataframe \<Rightarrow> step" where
  "basic_overview df = seqs
     [h1 ''Dataset Overview'',
      print (Text_nat ''Rows: '' (length (rows df))),
      print (Text_nat ''Columns: '' (length (columns df))),
      h2 ''Columns'',
      print (Text (join_str '', '' (columns df))),
      h2 ''Sample (first 5)'',
      print (Rendered ''df.head().to_string(index=False)'')]"

definition summary_stats :: "timestamp dataframe \<Rightarrow> step" where
  "summary_stats df = seqs
     [h1 ''Summary Statistics'',
      require_cols df [''Length_of_Stay'', ''Cost''],
      print (Rendered ''df[numeric_cols].describe().round(2).to_string()''),
      h2 ''Missing Values (count)'',
      print (Rendered ''df.isna().sum().to_string()'')]"

definition admissions_by_department :: "env \<Rightarrow> timestamp dataframe \<Rightarrow> step" where
  "admissions_by_department e df = seqs
     [h1 ''Admissions by Department'',
      require_cols df [''Department''],
      print (Counts_str (value_counts (map Department (rows df)))),
      save_bar e ''admissions_by_department.png'']"

definition avg_cost_per_department :: "env \<Rightarrow> timestamp dataframe \<Rightarrow> step" where
  "avg_cost_per_department e df = seqs
     [h1 ''Average Cost per Department'',
      require_cols df [''Department'', ''Cost''],
      print (Means_str (dept_cost (rows df))),
      save_bar e ''avg_cost_by_department.png'']"

definition readmission_rates :: "env \<Rightarrow> timestamp dataframe \<Rightarrow> step" where
  "readmission_rates e df = seqs
     [h1 ''Readmission Rates'',
      require_cols df [''Readmission''],
      print (Text ''Overall:''),
      print (Pct_str (overall (rows df))),
      h2 ''By Department:'',
      require_cols df [''Department''],
      print (Pct_table_str (fcolumns (by_dept (rows df))) (frows (by_dept (rows df)))),
      save_bar e ''readmission_yes_by_department.png'']"

definition los_vs_cost :: "env \<Rightarrow> timestamp dataframe \<Rightarrow> step" where
  "los_vs_cost e df = seqs
     [h1 ''Length of Stay vs Cost'',
      require_cols df [''Length_of_Stay'', ''Cost''],
      print (Text ''Correlation matrix:''),
      print (Rendered ''corr.to_string()''),
      savefig (FIG_DIR @ ''/length_of_stay_vs_cost.png''),
      print (Text (''[saved] '' @ resolve e (FIG_DIR @ ''/length_of_stay_vs_cost.png'')))]"

text \<open>\<open>df["Admission_Date"].isna().all()\<close>\<close>

definition admission_isna_all :: "'t dataframe \<Rightarrow> bool" where
  "admission_isna_all df = list_all (\<lambda>r. Admission_Date r = None) (rows df)"

definition monthly_admissions :: "env \<Rightarrow> timestamp dataframe \<Rightarrow> step" where
  "monthly_admissions e df w =
     (if \<not> has_col df ''Admission_Date'' \<or> admission_isna_all df then (None, w)
      else seqs
        [h1 ''Monthly Admissions Trend'',
         require_cols df [''Patient_ID''],
         print (Monthly_str (monthly (rows df))),
         savefig (FIG_DIR @ ''/monthly_admissions.png''),
         print (Text (''[saved] '' @ resolve e (FIG_DIR @ ''/monthly_admissions.png'')))] w)"

subsection \<open>\<open>main\<close> (lines 158 to 177) and the script\<close>

text \<open>The seven analyzer calls and the closing lines of \<open>main\<close>, on the cleaned table.\<close>

definition report :: "env \<Rightarrow> timestamp dataframe \<Rightarrow> step" where
  "report e df = seqs
     [basic_overview df,
      summary_stats df,
      admissions_by_department e df,
      avg_cost_per_department e df,
      readmission_rates e df,
      los_vs_cost e df,
      monthly_admissions e df,
      h1 ''Done'',
      print (Text (''Figures saved under: '' @ resolve e FIG_DIR))]"

definition main :: "env \<Rightarrow> string \<Rightarrow> step" where
  "main e path w =
     (case load_data e path w of
        (Inl x, w') \<Rightarrow> (Some x, w')
      | (Inr df, w') \<Rightarrow> report e (main_derive_los df) w')"

text \<open>Running the file as a script: the module-level configuration, then \<open>main()\<close>.\<close>

definition script :: "env \<Rightarrow> step" where
  "script e w = main e (DATA_PATH w) (mkdir_FIG_DIR w)"

section \<open>Auxiliary notions for the statements\<close>

text \<open>A frame whose cells are given by a function of the index and column labels.\<close>

definition frame_of :: "string list \<Rightarrow> string list \<Rightarrow> (string \<Rightarrow> string \<Rightarrow> rat option) \<Rightarrow> pct_frame" where
  "frame_of idx cols h = \<lparr>fcolumns = cols, frows = map (\<lambda>d. (d, map (h d) cols)) idx\<rparr>"

text \<open>The non-missing \<open>Readmission\<close> cells of one department, and the exact percentage of a
  category among them.\<close>

definition dept_vals :: "'t row list \<Rightarrow> string \<Rightarrow> string list" where
  "dept_vals rs d = dropna (map Readmission (filter (in_dept d) rs))"

definition exact_pct :: "'t row list \<Rightarrow> string \<Rightarrow> string \<Rightarrow> rat" where
  "exact_pct rs d c = of_nat (count_list (dept_vals rs d) c) / of_nat (length (dept_vals rs d)) * 100"



text \<open>A step that only appends to the console.\<close>

definition appends :: "step \<Rightarrow> bool" where
  "appends s = (\<forall>w. \<exists>out. stdout (snd (s w)) = stdout w @ out)"

subsection \<open>Example tables, environments and disks\<close>

definition midnight :: "int \<Rightarrow> int \<Rightarrow> int \<Rightarrow> timestamp" where
  "midnight y m d = days_from_civil y m d * ns_per_day"

definition mk_row ::
  "string option \<Rightarrow> string option \<Rightarrow> 't option \<Rightarrow> 't option \<Rightarrow> rat option \<Rightarrow> rat option \<Rightarrow>
   string option \<Rightarrow> 't row" where
  "mk_row p d a z l c r =
     \<lparr>Patient_ID = p, Department = d, Admission_Date = a, Discharge_Date = z,
      Length_of_Stay = l, Cost = c, Readmission = r\<rparr>"

definition all_columns :: "string list" where
  "all_columns = [''Patient_ID'', ''Department'', ''Admission_Date'', ''Discharge_Date'',
                  ''Length_of_Stay'', ''Cost'', ''Readmission'']"

text \<open>Three stays: one without a length of stay, one whose admission date did not parse but
  whose length of stay is recorded, one discharged a week before its admission.\<close>

definition stays :: "timestamp dataframe" where
  "stays = \<lparr>columns = all_columns,
     rows = [mk_row (Some ''P1'') (Some ''ER'') (Some (midnight 2024 1 10))
               (Some (midnight 2024 1 13)) None (Some 100) (Some ''No''),
             mk_row (Some ''P2'') (Some ''ER'') None
               (Some (midnight 2024 1 20)) (Some 5) (Some 300) (Some ''Yes''),
             mk_row (Some ''P3'') (Some ''ICU'') (Some (midnight 2024 2 9))
               (Some (midnight 2024 2 2)) (Some 4) (Some 500) (Some ''No'')]\<rparr>"

text \<open>One stay whose recorded length of stay is negative.\<close>

definition billed :: "timestamp dataframe" where
  "billed = \<lparr>columns = all_columns,
     rows = [mk_row (Some ''P1'') (Some ''ER'') (Some (midnight 2024 1 10))
               (Some (midnight 2024 1 13)) (Some (- 3)) (Some 100) (Some ''No'')]\<rparr>"


definition no_dates :: "timestamp dataframe" where
  "no_dates = \<lparr>columns = [''Department'', ''Length_of_Stay'', ''Cost'', ''Readmission''],
     rows = [mk_row None (Some ''ER'') None None (Some 3) (Some 100) (Some ''No'')]\<rparr>"

text \<open>Two CSV tables as \<open>read_csv\<close> returns them, dates still text.\<close>

definition raw_stays :: "string dataframe" where
  "raw_stays = \<lparr>columns = all_columns,
     rows = [mk_row (Some ''P1'') (Some ''ER'') (Some ''2024-01-10'') (Some ''2024-01-13'')
               None (Some 100) (Some ''No''),
             mk_row (Some ''P2'') (Some ''ER'') (Some ''soon'') (Some ''2024-01-20'')
               (Some 5) (Some 300) (Some ''Yes'')]\<rparr>"


definition demo_dates :: "string \<Rightarrow> timestamp option" where
  "demo_dates = map_of [(''2024-01-10'', midnight 2024 1 10), (''2024-01-13'', midnight 2024 1 13),
                        (''2024-01-20'', midnight 2024 1 20)]"

text \<open>An environment whose only readable file is \<open>data/hospital_data.csv\<close>, holding the given
  table; a disk with the given paths and an empty console.\<close>

definition demo_env :: "string dataframe \<Rightarrow> env" where
  "demo_env table =
     \<lparr>resolve = (\<lambda>p. ''/srv/eda/'' @ p),
      read_csv = (\<lambda>p. if p = ''data/hospital_data.csv'' then Some table else None),
      to_datetime = demo_dates\<rparr>"

definition disk :: "string set \<Rightarrow> world" where
  "disk ps = \<lparr>paths = ps, stdout = []\<rparr>"


text \<open>One readmission in three in the ER, none in the ICU, no recorded answer in the lab.\<close>

definition thirds :: "timestamp row list" where
  "thirds =
     [mk_row None (Some ''ER'') None None None None (Some ''Yes''),
      mk_row None (Some ''ER'') None None None None (Some ''No''),
      mk_row None (Some ''ER'') None None None None (Some ''No''),
      mk_row None (Some ''ICU'') None None None None (Some ''No''),
      mk_row None (Some ''Lab'') None None None None None]"

text \<open>Two January admissions, one of them without a patient identifier, one row without an
  admission date, one February admission.\<close>

definition visits :: "timestamp row list" where
  "visits =
     [mk_row (Some ''P1'') None (Some (midnight 2024 1 10)) None None None None,
      mk_row None None (Some (midnight 2024 1 15)) None None None None,
      mk_row (Some ''P3'') None None None None None None,
      mk_row (Some ''P4'') None (Some (midnight 2024 2 9)) None None None None]"

section \<open>Helper lemmas\<close>








lemma require_cols_exn: "fst (require_cols df cs w) = None \<Longrightarrow> c \<in> set cs \<Longrightarrow> has_col df c"
  by (induction cs) (auto split: if_splits)







lemma monthly_admissions_skip:
  "\<not> has_col df ''Admission_Date'' \<or> admission_isna_all df \<Longrightarrow> monthly_admissions e df w = (None, w)"
  by (auto simp: monthly_admissions_def)




lemma set_dropna: "set (dropna xs) = {v. Some v \<in> set xs}"
  by (induction xs) (auto simp: dropna_def split: option.splits)

lemma length_dropna_map: "length (dropna (map f xs)) = length (filter (\<lambda>x. f x \<noteq> None) xs)"
  by (induction xs) (auto simp: dropna_def split: option.splits)

lemma set_group_keys: "set (group_keys ks) = {k. Some k \<in> set ks}"
  by (simp add: group_keys_def set_dropna)

lemma distinct_group_keys: "distinct (group_keys ks)"
  by (simp add: group_keys_def)

lemma sorted_group_keys: "sorted (group_keys ks)"
  by (simp add: group_keys_def)

lemma set_sort_values_desc: "set (sort_values_desc s) = set s"
  by (simp add: sort_values_desc_def)

lemma mset_sort_values_desc: "mset (sort_values_desc s) = mset s"
  by (simp add: sort_values_desc_def)

lemma distinct_fst_sort_values_desc:
  "distinct (map fst s) \<Longrightarrow> distinct (map fst (sort_values_desc s))"
proof -
  assume d: "distinct (map fst s)"
  have "mset (map fst (sort_values_desc s)) = mset (map fst s)"
    by (simp add: mset_sort_values_desc)
  then show ?thesis using d by (metis mset_eq_imp_distinct_iff)
qed


lemma monthly_count:
  "(k, n) \<in> set (monthly rs) \<Longrightarrow>
   n = length (filter (\<lambda>r. \<exists>t. Admission_Date r = Some t \<and> year_month t = k \<and> Patient_ID r \<noteq> None) rs)"
proof -
  assume "(k, n) \<in> set (monthly rs)"
  then have "n = length (dropna (map Patient_ID (filter (\<lambda>r. YearMonth r = Some k) rs)))"
    by (auto simp: monthly_def)
  also have "\<dots> = length (filter (\<lambda>r. YearMonth r = Some k \<and> Patient_ID r \<noteq> None) rs)"
    by (simp add: length_dropna_map conj_commute)
  also have "(\<lambda>r::timestamp row. YearMonth r = Some k \<and> Patient_ID r \<noteq> None) =
             (\<lambda>r. \<exists>t. Admission_Date r = Some t \<and> year_month t = k \<and> Patient_ID r \<noteq> None)"
    by (auto simp: YearMonth_def fun_eq_iff)
  finally show ?thesis .
qed

lemma monthly_keys:
  "set (map fst (monthly rs)) = {year_month t |t. \<exists>r \<in> set rs. Admission_Date r = Some t}"
proof -
  have "set (map fst (monthly rs)) = {k. Some k \<in> set (map YearMonth rs)}"
    by (simp add: monthly_def comp_def set_group_keys)
  also have "\<dots> = {year_month t |t. \<exists>r \<in> set rs. Admission_Date r = Some t}"
  proof (rule set_eqI)
    fix k
    show "k \<in> {k. Some k \<in> set (map YearMonth rs)} \<longleftrightarrow>
          k \<in> {year_month t |t. \<exists>r \<in> set rs. Admission_Date r = Some t}"
    proof
      assume "k \<in> {k. Some k \<in> set (map YearMonth rs)}"
      then obtain r where r: "r \<in> set rs" "YearMonth r = Some k" by auto
      then obtain t where "Admission_Date r = Some t" "year_month t = k"
        by (cases "Admission_Date r") (auto simp: YearMonth_def)
      with r show "k \<in> {year_month t |t. \<exists>r \<in> set rs. Admission_Date r = Some t}" by blast
    next
      assume "k \<in> {year_month t |t. \<exists>r \<in> set rs. Admission_Date r = Some t}"
      then obtain t r where "r \<in> set rs" "Admission_Date r = Some t" "k = year_month t" by blast
      then have "YearMonth r = Some k" by (simp add: YearMonth_def)
      with \<open>r \<in> set rs\<close> show "k \<in> {k. Some k \<in> set (map YearMonth rs)}" by force
    qed
  qed
  finally show ?thesis .
qed

lemma monthly_keys_sorted: "sorted (map fst (monthly rs)) \<and> distinct (map fst (monthly rs))"
  by (simp add: monthly_def comp_def sorted_group_keys distinct_group_keys)




lemma round_dp_zero: "round_dp n 0 = 0"
  by (simp add: round_dp_def round_half_even_def)




lemma set_uniq: "set (uniq xs) = set xs"
  by (induction xs) auto

lemma distinct_uniq: "distinct (uniq xs)"
  by (induction xs) (auto simp: set_uniq)

lemma map_of_value_counts:
  "map_of (value_counts xs) c =
     (if c \<in> set (dropna xs) then Some (count_list (dropna xs) c) else None)"
proof -
  let ?vs = "dropna xs"
  let ?s = "map (\<lambda>v. (v, count_list ?vs v)) (uniq ?vs)"
  have fst_s: "map fst ?s = uniq ?vs" by (simp add: comp_def)
  have d: "distinct (map fst (value_counts xs))"
    unfolding value_counts_def Let_def
    by (rule distinct_fst_sort_values_desc) (simp add: comp_def distinct_uniq)
  have s: "set (value_counts xs) = {(v, count_list ?vs v) |v. v \<in> set ?vs}"
    by (auto simp: value_counts_def Let_def set_sort_values_desc set_uniq)
  show ?thesis
  proof (cases "c \<in> set ?vs")
    case True
    then have "(c, count_list ?vs c) \<in> set (value_counts xs)" using s by blast
    then show ?thesis using d True by simp
  next
    case False
    then have "c \<notin> fst ` set (value_counts xs)" using s by force
    then show ?thesis using False by (simp add: map_of_eq_None_iff)
  qed
qed

lemma map_of_value_counts_normalize:
  "map_of (value_counts_normalize xs) c =
     (if c \<in> set (dropna xs)
      then Some (of_nat (count_list (dropna xs) c) / of_nat (length (dropna xs))) else None)"
proof -
  have "map_of (value_counts_normalize xs) c =
        map_option (\<lambda>n. of_nat n / of_nat (length (dropna xs))) (map_of (value_counts xs) c)"
    unfolding value_counts_normalize_def by (simp add: map_of_map)
  then show ?thesis by (simp add: map_of_value_counts)
qed

lemma map_of_block:
  "map_of (map (\<lambda>(d, c, p). ((d, c), p)) (map (\<lambda>(c, p). (k, c, p * 100)) xs)) (d, c) =
     (if k = d then map_option (\<lambda>p. p * 100) (map_of xs c) else None)"
  by (induction xs) auto

lemma cell_append:
  "pivot_cell (xs @ ys) d c = (case pivot_cell xs d c of Some v \<Rightarrow> Some v | None \<Rightarrow> pivot_cell ys d c)"
  by (simp add: pivot_cell_def map_add_def split: option.splits)

lemma cell_block:
  "pivot_cell (map (\<lambda>(c, p). (k, c, p * 100)) xs) d c =
     (if k = d then map_option (\<lambda>p. p * 100) (map_of xs c) else None)"
  unfolding pivot_cell_def by (rule map_of_block)

lemma cell_concat:
  "pivot_cell (concat (map (\<lambda>d. map (\<lambda>(c, p). (d, c, p * 100)) (f d)) ks)) d c =
     (if d \<in> set ks then map_option (\<lambda>p. p * 100) (map_of (f d) c) else None)"
proof (induction ks)
  case Nil
  then show ?case by (simp add: pivot_cell_def)
next
  case (Cons k ks)
  have "pivot_cell (concat (map (\<lambda>d. map (\<lambda>(c, p). (d, c, p * 100)) (f d)) (k # ks))) d c =
        (case pivot_cell (map (\<lambda>(c, p). (k, c, p * 100)) (f k)) d c of
           Some v \<Rightarrow> Some v
         | None \<Rightarrow> pivot_cell (concat (map (\<lambda>d. map (\<lambda>(c, p). (d, c, p * 100)) (f d)) ks)) d c)"
    by (simp add: cell_append)
  then show ?case
    unfolding Cons.IH cell_block by (auto split: option.splits)
qed


lemma pivot_frame_of:
  "pivot long = frame_of (sort (remdups (map (\<lambda>(d, c, p). d) long)))
                         (sort (remdups (map (\<lambda>(d, c, p). c) long))) (pivot_cell long)"
  by (simp add: pivot_def frame_of_def Let_def)

lemma fillna_frame_of:
  "fillna z (frame_of idx cols h) =
     frame_of idx cols (\<lambda>d c. case h d c of None \<Rightarrow> Some z | Some x \<Rightarrow> Some x)"
  by (simp add: fillna_def frame_of_def comp_def)

lemma round_frame_of:
  "round_frame n (frame_of idx cols h) = frame_of idx cols (\<lambda>d c. map_option (round_dp n) (h d c))"
  by (simp add: round_frame_def frame_of_def comp_def)

lemma ensure_col_frame_of:
  "(c \<notin> set cols \<Longrightarrow> \<forall>d. h d c = Some 0) \<Longrightarrow>
   ensure_col c (frame_of idx cols h) = frame_of idx (if c \<in> set cols then cols else cols @ [c]) h"
  by (auto simp: ensure_col_def frame_of_def comp_def)

lemma select_cols_frame_of:
  "set cs \<subseteq> set cols \<Longrightarrow> select_cols cs (frame_of idx cols h) = frame_of idx cs h"
proof -
  assume sub: "set cs \<subseteq> set cols"
  have "\<And>d. map (\<lambda>c. case map_of (zip cols (map (h d) cols)) c of None \<Rightarrow> None | Some v \<Rightarrow> v) cs
            = map (h d) cs"
    using sub by (auto simp: map_of_zip_map)
  then show ?thesis by (simp add: select_cols_def frame_of_def comp_def)
qed


lemma pivot_cell_dept_pct:
  "pivot_cell (dept_pct rs) d c =
     (if d \<in> set (group_keys (map Department rs)) \<and> c \<in> set (dept_vals rs d)
      then Some (exact_pct rs d c) else None)"
  unfolding dept_pct_def cell_concat
  by (simp add: map_of_value_counts_normalize dept_vals_def exact_pct_def)

lemma filled_cell:
  "(case pivot_cell (dept_pct rs) d c of None \<Rightarrow> 0 | Some x \<Rightarrow> x) = exact_pct rs d c"
proof (cases "c \<in> set (dept_vals rs d)")
  case True
  then obtain r where "r \<in> set rs" "in_dept d r"
    by (auto simp: dept_vals_def set_dropna)
  then have "d \<in> set (group_keys (map Department rs))"
    by (force simp: set_group_keys in_dept_def)
  then show ?thesis using True by (simp add: pivot_cell_dept_pct)
next
  case False
  then have "count_list (dept_vals rs d) c = 0" by (simp add: count_list_0_iff)
  then show ?thesis using False by (simp add: pivot_cell_dept_pct exact_pct_def)
qed

lemma pivot_cell_absent_col:
  "c \<notin> set (map (\<lambda>(d, c, p). c) long) \<Longrightarrow> pivot_cell long d c = None"
  by (force simp: pivot_cell_def map_of_eq_None_iff)

lemma by_dept_frame_of:
  "by_dept rs =
     frame_of (sort (remdups (map (\<lambda>(d, c, p). d) (dept_pct rs)))) [''No'', ''Yes'']
       (\<lambda>d c. Some (round_dp 1 (exact_pct rs d c)))"
proof -
  let ?long = "dept_pct rs"
  let ?idx = "sort (remdups (map (\<lambda>(d, c, p). d) ?long))"
  let ?cols = "sort (remdups (map (\<lambda>(d, c, p). c) ?long))"
  let ?h = "\<lambda>d c. Some (round_dp 1 (exact_pct rs d c)) :: rat option"
  have h: "(\<lambda>d c. map_option (round_dp 1)
                    (case pivot_cell ?long d c of None \<Rightarrow> Some 0 | Some x \<Rightarrow> Some x)) = ?h"
  proof (intro ext)
    fix d c
    have "map_option (round_dp 1) (case pivot_cell ?long d c of None \<Rightarrow> Some 0 | Some x \<Rightarrow> Some x)
          = Some (round_dp 1 (case pivot_cell ?long d c of None \<Rightarrow> 0 | Some x \<Rightarrow> x))"
      by (simp split: option.splits)
    then show "map_option (round_dp 1)
                 (case pivot_cell ?long d c of None \<Rightarrow> Some 0 | Some x \<Rightarrow> Some x) = ?h d c"
      by (simp only: filled_cell)
  qed
  have rounded: "round_frame 1 (fillna 0 (pivot ?long)) = frame_of ?idx ?cols ?h"
    by (simp only: pivot_frame_of fillna_frame_of round_frame_of h)
  have absent: "\<And>c. c \<notin> set ?cols \<Longrightarrow> \<forall>d. ?h d c = Some 0"
  proof
    fix c d
    assume "c \<notin> set ?cols"
    then have "pivot_cell ?long d c = None" by (simp add: pivot_cell_absent_col)
    then have "exact_pct rs d c = 0" using filled_cell [of rs d c] by simp
    then show "?h d c = Some 0" by (simp add: round_dp_zero)
  qed
  let ?cols1 = "if ''No'' \<in> set ?cols then ?cols else ?cols @ [''No'']"
  let ?cols2 = "if ''Yes'' \<in> set ?cols1 then ?cols1 else ?cols1 @ [''Yes'']"
  have no: "ensure_col ''No'' (frame_of ?idx ?cols ?h) = frame_of ?idx ?cols1 ?h"
    by (rule ensure_col_frame_of) (rule absent)
  have absent1: "''Yes'' \<notin> set ?cols1 \<Longrightarrow> \<forall>d. ?h d ''Yes'' = Some 0"
    using absent [of "''Yes''"] by (auto split: if_splits)
  have yes: "ensure_col ''Yes'' (frame_of ?idx ?cols1 ?h) = frame_of ?idx ?cols2 ?h"
    by (rule ensure_col_frame_of) (rule absent1)
  have sub: "set [''No'', ''Yes''] \<subseteq> set ?cols2" by auto
  show ?thesis
    unfolding by_dept_def rounded no yes
    by (rule select_cols_frame_of) (rule sub)
qed

lemma dept_pct_departments:
  "d \<in> set (map (\<lambda>(d, c, p). d) (dept_pct rs)) \<longleftrightarrow> dept_vals rs d \<noteq> []"
proof -
  have "d \<in> set (map (\<lambda>(d, c, p). d) (dept_pct rs)) \<longleftrightarrow> (\<exists>c. pivot_cell (dept_pct rs) d c \<noteq> None)"
    by (force simp: pivot_cell_def map_of_eq_None_iff)
  also have "\<dots> \<longleftrightarrow> (\<exists>c. d \<in> set (group_keys (map Department rs)) \<and> c \<in> set (dept_vals rs d))"
    by (simp add: pivot_cell_dept_pct)
  also have "\<dots> \<longleftrightarrow> (\<exists>c. c \<in> set (dept_vals rs d))"
    by (force simp: dept_vals_def set_dropna set_group_keys in_dept_def)
  also have "\<dots> \<longleftrightarrow> dept_vals rs d \<noteq> []"
    by (cases "dept_vals rs d") auto
  finally show ?thesis .
qed

lemma by_dept_index:
  "map fst (frows (by_dept rs)) = sort (remdups (map (\<lambda>(d, c, p). d) (dept_pct rs)))"
  by (simp add: by_dept_frame_of frame_of_def comp_def)

lemma by_dept_row:
  "(d, vs) \<in> set (frows (by_dept rs)) \<Longrightarrow>
   vs = [Some (round_dp 1 (exact_pct rs d ''No'')), Some (round_dp 1 (exact_pct rs d ''Yes''))]
   \<and> dept_vals rs d \<noteq> []"
proof -
  assume "(d, vs) \<in> set (frows (by_dept rs))"
  then have "d \<in> set (map (\<lambda>(d, c, p). d) (dept_pct rs))"
    and "vs = [Some (round_dp 1 (exact_pct rs d ''No'')), Some (round_dp 1 (exact_pct rs d ''Yes''))]"
    by (force simp: by_dept_frame_of frame_of_def)+
  then show ?thesis using dept_pct_departments [of d rs] by blast
qed



lemma exact_pct_absent:
  "\<forall>r \<in> set rs. in_dept d r \<longrightarrow> Readmission r \<noteq> Some c \<Longrightarrow> exact_pct rs d c = 0"
proof -
  assume "\<forall>r \<in> set rs. in_dept d r \<longrightarrow> Readmission r \<noteq> Some c"
  then have "c \<notin> set (dept_vals rs d)" by (auto simp: dept_vals_def set_dropna)
  then show ?thesis by (simp add: exact_pct_def count_list_0_iff)
qed



section \<open>The claims\<close>

lemma has_col_derive:
  "has_col (main_derive_los df) c \<longleftrightarrow>
     has_col df c \<or> (c = ''Length_of_Stay'' \<and> has_col df ''Admission_Date'' \<and> has_col df ''Discharge_Date'')"
  by (auto simp: main_derive_los_def assign_los_def has_col_def)


lemma derive_replace:
  assumes "has_col df ''Admission_Date''" "has_col df ''Discharge_Date''"
    "\<not> has_col df ''Length_of_Stay'' \<or> (\<exists>r \<in> set (rows df). Length_of_Stay r = None)"
  shows "rows (main_derive_los df) = map (\<lambda>r. r\<lparr>Length_of_Stay := clip_lower 0 (calc_los r)\<rparr>) (rows df)"
  using assms by (auto simp: main_derive_los_def los_isna_any_def assign_los_def list_ex_iff)

lemma derive_keep:
  "\<not> (has_col df ''Admission_Date'' \<and> has_col df ''Discharge_Date'') \<or>
   (has_col df ''Length_of_Stay'' \<and> (\<forall>r \<in> set (rows df). Length_of_Stay r \<noteq> None)) \<Longrightarrow>
   main_derive_los df = df"
  by (auto simp: main_derive_los_def los_isna_any_def list_ex_iff)

text \<open>Claim C1. In a table that has both the \<open>Admission_Date\<close> and the \<open>Discharge_Date\<close> column:
  when the \<open>Length_of_Stay\<close> column is absent or has a missing cell, the derivation step leaves
  a \<open>Length_of_Stay\<close> column in which every row holds the whole-day difference, discharge
  minus admission, of that row, clamped below at zero (the difference, and with it the cell,
  is missing in a row where a date is missing); when the column is present and fully
  populated, the table is left unchanged.\<close>

theorem derive_los_whole_day_difference:
  assumes "has_col df ''Admission_Date''" and "has_col df ''Discharge_Date''"
  shows "(\<not> has_col df ''Length_of_Stay'' \<or> (\<exists>r \<in> set (rows df). Length_of_Stay r = None) \<longrightarrow>
            has_col (main_derive_los df) ''Length_of_Stay'' \<and>
            length (rows (main_derive_los df)) = length (rows df) \<and>
            (\<forall>i < length (rows df).
               Length_of_Stay (rows (main_derive_los df) ! i) =
                 (case Discharge_Date (rows df ! i) of
                    None \<Rightarrow> None
                  | Some d \<Rightarrow>
                      (case Admission_Date (rows df ! i) of
                         None \<Rightarrow> None
                       | Some a \<Rightarrow> Some (of_int (max 0 ((d - a) div 86400000000000)))))))
       \<and> (has_col df ''Length_of_Stay'' \<and> (\<forall>r \<in> set (rows df). Length_of_Stay r \<noteq> None) \<longrightarrow>
            main_derive_los df = df)"
proof (intro conjI impI)
  assume c: "\<not> has_col df ''Length_of_Stay'' \<or> (\<exists>r \<in> set (rows df). Length_of_Stay r = None)"
  note r = derive_replace [OF assms c]
  show "has_col (main_derive_los df) ''Length_of_Stay''"
    using assms by (simp add: has_col_derive)
  show "length (rows (main_derive_los df)) = length (rows df)"
    by (simp add: r)
  show "\<forall>i < length (rows df).
               Length_of_Stay (rows (main_derive_los df) ! i) =
                 (case Discharge_Date (rows df ! i) of
                    None \<Rightarrow> None
                  | Some d \<Rightarrow>
                      (case Admission_Date (rows df ! i) of
                         None \<Rightarrow> None
                       | Some a \<Rightarrow> Some (of_int (max 0 ((d - a) div 86400000000000)))))"
    by (simp add: r clip_lower_def calc_los_def td_days_def ns_per_day_def split: option.splits)
next
  assume "has_col df ''Length_of_Stay'' \<and> (\<forall>r \<in> set (rows df). Length_of_Stay r \<noteq> None)"
  then show "main_derive_los df = df" by (simp add: derive_keep)
qed

lemmas ex_defs = stays_def billed_def all_columns_def mk_row_def midnight_def days_from_civil_def
  ns_per_day_def has_col_def

text \<open>The theorem at the table \<open>stays\<close>, whose first row has no length of stay, and at the table
  \<open>billed\<close>, whose column is fully populated.\<close>

theorem derive_los_whole_day_difference_witness:
  "has_col stays ''Admission_Date'' \<and> has_col stays ''Discharge_Date'' \<and>
   Length_of_Stay (rows stays ! 0) = None \<and>
   Length_of_Stay (rows (main_derive_los stays) ! 0) = Some 3 \<and>
   Length_of_Stay (rows (main_derive_los stays) ! 1) = None \<and>
   Length_of_Stay (rows (main_derive_los stays) ! 2) = Some 0 \<and>
   main_derive_los billed = billed"
proof -
  have a: "has_col stays ''Admission_Date''" and d: "has_col stays ''Discharge_Date''"
    by (simp_all add: ex_defs)
  have a': "has_col billed ''Admission_Date''" and d': "has_col billed ''Discharge_Date''"
    by (simp_all add: ex_defs)
  have m: "\<exists>r \<in> set (rows stays). Length_of_Stay r = None"
    by (simp add: ex_defs)
  have f: "has_col billed ''Length_of_Stay'' \<and> (\<forall>r \<in> set (rows billed). Length_of_Stay r \<noteq> None)"
    by (simp add: ex_defs)
  have n: "length (rows stays) = 3" by (simp add: ex_defs)
  from derive_los_whole_day_difference [OF a d] m
  have "\<forall>i < 3. Length_of_Stay (rows (main_derive_los stays) ! i) =
                 (case Discharge_Date (rows stays ! i) of
                    None \<Rightarrow> None
                  | Some d \<Rightarrow>
                      (case Admission_Date (rows stays ! i) of
                         None \<Rightarrow> None
                       | Some a \<Rightarrow> Some (of_int (max 0 ((d - a) div 86400000000000)))))"
    using n by simp
  then have "Length_of_Stay (rows (main_derive_los stays) ! 0) = Some 3"
    "Length_of_Stay (rows (main_derive_los stays) ! 1) = None"
    "Length_of_Stay (rows (main_derive_los stays) ! 2) = Some 0"
    by (simp_all add: ex_defs)
  moreover from derive_los_whole_day_difference [OF a' d'] f
  have "main_derive_los billed = billed" by blast
  ultimately show ?thesis using a d by (simp add: ex_defs)
qed


text \<open>Claim C2 as stated fails. In \<open>stays\<close> the second row has an unparseable admission date and a
  recorded length of stay of 5; the column has a missing cell elsewhere, so it is replaced as a
  whole and the second row ends up missing instead of retaining 5. In \<open>billed\<close> both dates of
  the row parsed, the column is fully populated and therefore kept, and the row's length of
  stay stays at \<open>-3\<close>.\<close>

theorem derive_los_retention_counterexample:
  "Admission_Date (rows stays ! 1) = None \<and>
   Length_of_Stay (rows stays ! 1) = Some 5 \<and>
   Length_of_Stay (rows (main_derive_los stays) ! 1) = None \<and>
   Admission_Date (rows billed ! 0) = Some (midnight 2024 1 10) \<and>
   Discharge_Date (rows billed ! 0) = Some (midnight 2024 1 13) \<and>
   Length_of_Stay (rows (main_derive_los billed) ! 0) = Some (- 3)"
  by (simp add: main_derive_los_def los_isna_any_def assign_los_def clip_lower_def calc_los_def
      td_days_def stays_def billed_def all_columns_def mk_row_def has_col_def)

text \<open>Claim C2, amended. In a table with both date columns whose \<open>Length_of_Stay\<close> column is
  absent or has a missing cell, after the derivation step the length of stay is non-negative
  in every row whose admission and discharge dates both parsed, and missing in every row with
  an unparseable date. In every other table (a date column absent, or \<open>Length_of_Stay\<close> present
  and fully populated) the step changes nothing, so every row retains the value it had.\<close>

theorem derive_los_sign_and_retention:
  "(has_col df ''Admission_Date'' \<and> has_col df ''Discharge_Date'' \<and>
    (\<not> has_col df ''Length_of_Stay'' \<or> (\<exists>r \<in> set (rows df). Length_of_Stay r = None)) \<longrightarrow>
      length (rows (main_derive_los df)) = length (rows df) \<and>
      (\<forall>i < length (rows df).
         (Admission_Date (rows df ! i) \<noteq> None \<and> Discharge_Date (rows df ! i) \<noteq> None \<longrightarrow>
            (\<exists>v. Length_of_Stay (rows (main_derive_los df) ! i) = Some v \<and> 0 \<le> v)) \<and>
         (Admission_Date (rows df ! i) = None \<or> Discharge_Date (rows df ! i) = None \<longrightarrow>
            Length_of_Stay (rows (main_derive_los df) ! i) = None)))
   \<and> (\<not> (has_col df ''Admission_Date'' \<and> has_col df ''Discharge_Date'') \<or>
      (has_col df ''Length_of_Stay'' \<and> (\<forall>r \<in> set (rows df). Length_of_Stay r \<noteq> None)) \<longrightarrow>
        main_derive_los df = df)"
proof (intro conjI impI)
  assume h: "has_col df ''Admission_Date'' \<and> has_col df ''Discharge_Date'' \<and>
    (\<not> has_col df ''Length_of_Stay'' \<or> (\<exists>r \<in> set (rows df). Length_of_Stay r = None))"
  then have r: "rows (main_derive_los df) =
      map (\<lambda>r. r\<lparr>Length_of_Stay := clip_lower 0 (calc_los r)\<rparr>) (rows df)"
    by (simp add: derive_replace)
  show "length (rows (main_derive_los df)) = length (rows df)" by (simp add: r)
  show "\<forall>i < length (rows df).
         (Admission_Date (rows df ! i) \<noteq> None \<and> Discharge_Date (rows df ! i) \<noteq> None \<longrightarrow>
            (\<exists>v. Length_of_Stay (rows (main_derive_los df) ! i) = Some v \<and> 0 \<le> v)) \<and>
         (Admission_Date (rows df ! i) = None \<or> Discharge_Date (rows df ! i) = None \<longrightarrow>
            Length_of_Stay (rows (main_derive_los df) ! i) = None)"
    by (auto simp: r clip_lower_def calc_los_def split: option.splits)
next
  assume "\<not> (has_col df ''Admission_Date'' \<and> has_col df ''Discharge_Date'') \<or>
      (has_col df ''Length_of_Stay'' \<and> (\<forall>r \<in> set (rows df). Length_of_Stay r \<noteq> None))"
  then show "main_derive_los df = df" by (rule derive_keep)
qed

text \<open>The amended statement at \<open>stays\<close> (column replaced) and at \<open>billed\<close> (column kept).\<close>

theorem derive_los_sign_and_retention_witness:
  "has_col stays ''Admission_Date'' \<and> has_col stays ''Discharge_Date'' \<and>
   Length_of_Stay (rows stays ! 0) = None \<and>
   Admission_Date (rows stays ! 2) \<noteq> None \<and> Discharge_Date (rows stays ! 2) \<noteq> None \<and>
   (\<exists>v. Length_of_Stay (rows (main_derive_los stays) ! 2) = Some v \<and> 0 \<le> v) \<and>
   Admission_Date (rows stays ! 1) = None \<and>
   Length_of_Stay (rows (main_derive_los stays) ! 1) = None \<and>
   main_derive_los billed = billed"
proof -
  have h: "has_col stays ''Admission_Date'' \<and> has_col stays ''Discharge_Date'' \<and>
    (\<not> has_col stays ''Length_of_Stay'' \<or> (\<exists>r \<in> set (rows stays). Length_of_Stay r = None))"
    by (simp add: ex_defs)
  have k: "\<not> (has_col billed ''Admission_Date'' \<and> has_col billed ''Discharge_Date'') \<or>
      (has_col billed ''Length_of_Stay'' \<and> (\<forall>r \<in> set (rows billed). Length_of_Stay r \<noteq> None))"
    by (simp add: ex_defs)
  have n: "length (rows stays) = 3" by (simp add: ex_defs)
  have c: "Length_of_Stay (rows stays ! 0) = None"
    "Admission_Date (rows stays ! 2) \<noteq> None" "Discharge_Date (rows stays ! 2) \<noteq> None"
    "Admission_Date (rows stays ! 1) = None"
    by (simp_all add: ex_defs)
  from derive_los_sign_and_retention [of stays] h n
  have "\<forall>i < 3.
         (Admission_Date (rows stays ! i) \<noteq> None \<and> Discharge_Date (rows stays ! i) \<noteq> None \<longrightarrow>
            (\<exists>v. Length_of_Stay (rows (main_derive_los stays) ! i) = Some v \<and> 0 \<le> v)) \<and>
         (Admission_Date (rows stays ! i) = None \<or> Discharge_Date (rows stays ! i) = None \<longrightarrow>
            Length_of_Stay (rows (main_derive_los stays) ! i) = None)"
    by simp
  then have "\<exists>v. Length_of_Stay (rows (main_derive_los stays) ! 2) = Some v \<and> 0 \<le> v"
    and "Length_of_Stay (rows (main_derive_los stays) ! 1) = None"
    using c by auto
  moreover from derive_los_sign_and_retention [of billed] k
  have "main_derive_los billed = billed" by blast
  ultimately show ?thesis using h c by blast
qed



lemma load_data_missing:
  "path \<notin> paths w \<Longrightarrow>
   load_data e path w =
     (Inl (SystemExit 1),
      w\<lparr>stdout := stdout w @
         [Text (''Oops '' @ [CHR 0xE2, CHR 0x80, CHR 0x94] @ '' I can'' @ [CHR 0x27]
                @ ''t find the dataset at: '' @ resolve e path),
          Text ''Make sure hospital_data.csv is in the /data folder.'']\<rparr>)"
  by (simp add: load_data_def print_def)

lemma main_missing:
  "path \<notin> paths w \<Longrightarrow>
   main e path w =
     (Some (SystemExit 1),
      w\<lparr>stdout := stdout w @
         [Text (''Oops '' @ [CHR 0xE2, CHR 0x80, CHR 0x94] @ '' I can'' @ [CHR 0x27]
                @ ''t find the dataset at: '' @ resolve e path),
          Text ''Make sure hospital_data.csv is in the /data folder.'']\<rparr>)"
  by (simp add: main_def load_data_missing)


lemma main_unreadable:
  "path \<in> paths w \<Longrightarrow> read_csv e path = None \<Longrightarrow> main e path w = (Some ReadError, w)"
  by (simp add: main_def load_data_def)


lemma appends_print: "appends (print x)"
  by (simp add: appends_def print_def)

lemma appends_savefig: "appends (savefig p)"
  by (simp add: appends_def savefig_def)

lemma appends_require_cols: "appends (require_cols df cs)"
  unfolding appends_def by (induction cs) auto

lemma appends_seqs: "(\<And>s. s \<in> set ss \<Longrightarrow> appends s) \<Longrightarrow> appends (seqs ss)"
proof (induction ss)
  case Nil
  then show ?case by (simp add: appends_def)
next
  case (Cons s ss)
  have s: "appends s" and r: "appends (seqs ss)" using Cons by simp_all
  show ?case
    unfolding appends_def
  proof
    fix w
    obtain x w' where sw: "s w = (x, w')" by (cases "s w")
    obtain o1 where o1: "stdout w' = stdout w @ o1"
      using s sw unfolding appends_def by (metis snd_conv)
    obtain o2 where o2: "stdout (snd (seqs ss w')) = stdout w' @ o2"
      using r unfolding appends_def by blast
    show "\<exists>out. stdout (snd (seqs (s # ss) w)) = stdout w @ out"
    proof (cases x)
      case None
      then show ?thesis using sw o1 o2 by simp
    next
      case (Some e)
      then show ?thesis using sw o1 by simp
    qed
  qed
qed

lemma h1_result:
  "h1 t w = (None, w\<lparr>stdout := stdout w @
      [Text (CHR 0x0A # replicate (length t) CHR ''=''), Text t, Text (replicate (length t) CHR ''='')]\<rparr>)"
  by (simp add: h1_def print_def)

lemma seqs_after_h1:
  assumes "\<And>s. s \<in> set ss \<Longrightarrow> appends s"
  shows "\<exists>rest. stdout (snd (seqs (h1 t # ss) w)) =
           stdout w @ [Text (CHR 0x0A # replicate (length t) CHR ''=''), Text t,
                       Text (replicate (length t) CHR ''='')] @ rest"
proof -
  let ?w = "w\<lparr>stdout := stdout w @
      [Text (CHR 0x0A # replicate (length t) CHR ''=''), Text t, Text (replicate (length t) CHR ''='')]\<rparr>"
  have "appends (seqs ss)" using assms by (rule appends_seqs)
  then obtain rest where "stdout (snd (seqs ss ?w)) = stdout ?w @ rest"
    unfolding appends_def by blast
  then show ?thesis by (simp add: h1_result)
qed





text \<open>Claim C5. The monthly-admissions analyzer runs, that is, it prints its section header
  after whatever the console already holds, if and only if the table has an \<open>Admission_Date\<close>
  column with at least one non-missing cell. When the column is absent or all its cells are
  missing, the analyzer returns the state it was given: no file is added and nothing is
  printed.\<close>

theorem monthly_admissions_runs_iff:
  "((\<exists>rest. stdout (snd (monthly_admissions e df w)) =
        stdout w @ [Text (CHR 0x0A # replicate 24 CHR ''=''), Text ''Monthly Admissions Trend'',
                    Text (replicate 24 CHR ''='')] @ rest)
     \<longleftrightarrow> has_col df ''Admission_Date'' \<and> (\<exists>r \<in> set (rows df). Admission_Date r \<noteq> None))
   \<and> (\<not> has_col df ''Admission_Date'' \<or> (\<forall>r \<in> set (rows df). Admission_Date r = None) \<longrightarrow>
        monthly_admissions e df w = (None, w))"
proof (cases "\<not> has_col df ''Admission_Date'' \<or> admission_isna_all df")
  case True
  then have skip: "monthly_admissions e df w = (None, w)" by (rule monthly_admissions_skip)
  have "\<not> (has_col df ''Admission_Date'' \<and> (\<exists>r \<in> set (rows df). Admission_Date r \<noteq> None))"
    using True by (auto simp: admission_isna_all_def list_all_iff)
  then show ?thesis using skip by simp
next
  case False
  then have g: "has_col df ''Admission_Date'' \<and> (\<exists>r \<in> set (rows df). Admission_Date r \<noteq> None)"
    by (auto simp: admission_isna_all_def list_all_iff)
  have "\<exists>rest. stdout (snd (seqs
        (h1 ''Monthly Admissions Trend'' #
         [require_cols df [''Patient_ID''],
          print (Monthly_str (monthly (rows df))),
          savefig (FIG_DIR @ ''/monthly_admissions.png''),
          print (Text (''[saved] '' @ resolve e (FIG_DIR @ ''/monthly_admissions.png'')))]) w)) =
        stdout w @ [Text (CHR 0x0A # replicate (length ''Monthly Admissions Trend'') CHR ''=''),
                    Text ''Monthly Admissions Trend'',
                    Text (replicate (length ''Monthly Admissions Trend'') CHR ''='')] @ rest"
    by (rule seqs_after_h1) (auto simp: appends_print appends_savefig appends_require_cols)
  moreover have "monthly_admissions e df w = seqs
        (h1 ''Monthly Admissions Trend'' #
         [require_cols df [''Patient_ID''],
          print (Monthly_str (monthly (rows df))),
          savefig (FIG_DIR @ ''/monthly_admissions.png''),
          print (Text (''[saved] '' @ resolve e (FIG_DIR @ ''/monthly_admissions.png'')))]) w"
    by (simp only: monthly_admissions_def False if_False)
  moreover have "length ''Monthly Admissions Trend'' = 24" by simp
  ultimately have p: "\<exists>rest. stdout (snd (monthly_admissions e df w)) =
        stdout w @ [Text (CHR 0x0A # replicate 24 CHR ''=''), Text ''Monthly Admissions Trend'',
                    Text (replicate 24 CHR ''='')] @ rest"
    by (simp only:)
  show ?thesis
  proof (intro conjI iffI impI)
    show "\<exists>rest. stdout (snd (monthly_admissions e df w)) =
        stdout w @ [Text (CHR 0x0A # replicate 24 CHR ''=''), Text ''Monthly Admissions Trend'',
                    Text (replicate 24 CHR ''='')] @ rest"
      by (rule p)
    show "has_col df ''Admission_Date''" using g by simp
    show "\<exists>r \<in> set (rows df). Admission_Date r \<noteq> None" using g by simp
  next
    assume "\<not> has_col df ''Admission_Date'' \<or> (\<forall>r \<in> set (rows df). Admission_Date r = None)"
    then have False using g by auto
    then show "monthly_admissions e df w = (None, w)" ..
  qed
qed

text \<open>The theorem at \<open>stays\<close>, where the analyzer runs, and at \<open>no_dates\<close>, where it is skipped.\<close>

theorem monthly_admissions_runs_iff_witness:
  "has_col stays ''Admission_Date'' \<and> Admission_Date (rows stays ! 0) \<noteq> None \<and>
   (\<exists>rest. stdout (snd (monthly_admissions (demo_env raw_stays) stays (disk {}))) =
        [Text (CHR 0x0A # replicate 24 CHR ''=''), Text ''Monthly Admissions Trend'',
         Text (replicate 24 CHR ''='')] @ rest) \<and>
   \<not> has_col no_dates ''Admission_Date'' \<and>
   monthly_admissions (demo_env raw_stays) no_dates (disk {}) = (None, disk {})"
proof -
  have a: "has_col stays ''Admission_Date''" "Admission_Date (rows stays ! 0) \<noteq> None"
    "rows stays ! 0 \<in> set (rows stays)"
    by (simp_all add: ex_defs)
  then have g: "has_col stays ''Admission_Date'' \<and> (\<exists>r \<in> set (rows stays). Admission_Date r \<noteq> None)"
    by blast
  have n: "\<not> has_col no_dates ''Admission_Date''" by (simp add: no_dates_def has_col_def)
  from monthly_admissions_runs_iff [of "demo_env raw_stays" stays "disk {}"] g
  have "\<exists>rest. stdout (snd (monthly_admissions (demo_env raw_stays) stays (disk {}))) =
        stdout (disk {}) @ [Text (CHR 0x0A # replicate 24 CHR ''=''), Text ''Monthly Admissions Trend'',
         Text (replicate 24 CHR ''='')] @ rest"
    by blast
  moreover from monthly_admissions_runs_iff [of "demo_env raw_stays" no_dates "disk {}"] n
  have "monthly_admissions (demo_env raw_stays) no_dates (disk {}) = (None, disk {})" by blast
  ultimately show ?thesis using a n by (simp add: disk_def)
qed





text \<open>Claim C10. The script creates the figures directory before \<open>main\<close>, and with it the check
  that the input file exists, runs; so a run that ends with exit status 1 because the input
  file is missing leaves \<open>reports/figs\<close> on disk.\<close>

theorem fig_dir_created_before_load:
  "script e w = main e (DATA_PATH w) (mkdir_FIG_DIR w) \<and>
   FIG_DIR \<in> paths (mkdir_FIG_DIR w) \<and>
   (DATA_PATH w \<notin> paths w \<longrightarrow>
      exit_status (fst (script e w)) = 1 \<and> FIG_DIR \<in> paths (snd (script e w)))"
proof (intro conjI impI)
  show "script e w = main e (DATA_PATH w) (mkdir_FIG_DIR w)" by (simp add: script_def)
  show "FIG_DIR \<in> paths (mkdir_FIG_DIR w)" by (simp add: mkdir_FIG_DIR_def)
next
  assume m: "DATA_PATH w \<notin> paths w"
  have "DATA_PATH w \<noteq> ''reports''" "DATA_PATH w \<noteq> FIG_DIR"
    by (simp_all add: DATA_PATH_def FIG_DIR_def)
  then have m': "DATA_PATH w \<notin> paths (mkdir_FIG_DIR w)"
    using m by (simp add: mkdir_FIG_DIR_def)
  show "exit_status (fst (script e w)) = 1"
    by (simp add: script_def main_missing [OF m'])
  have "paths (snd (script e w)) = paths (mkdir_FIG_DIR w)"
    by (simp add: script_def main_missing [OF m'])
  then show "FIG_DIR \<in> paths (snd (script e w))"
    by (simp add: mkdir_FIG_DIR_def)
qed

text \<open>The theorem on an empty disk.\<close>

theorem fig_dir_created_before_load_witness:
  "DATA_PATH (disk {}) \<notin> paths (disk {}) \<and>
   exit_status (fst (script (demo_env raw_stays) (disk {}))) = 1 \<and>
   ''reports/figs'' \<in> paths (snd (script (demo_env raw_stays) (disk {})))"
proof -
  have m: "DATA_PATH (disk {}) \<notin> paths (disk {})" by (simp add: disk_def)
  from fig_dir_created_before_load [of "demo_env raw_stays" "disk {}"] m
  have "exit_status (fst (script (demo_env raw_stays) (disk {}))) = 1 \<and>
        FIG_DIR \<in> paths (snd (script (demo_env raw_stays) (disk {})))"
    by blast
  then show ?thesis using m by (simp add: FIG_DIR_def)
qed






lemma set_dept_vals:
  "set (dept_vals rs d) = {c. \<exists>r \<in> set rs. Department r = Some d \<and> Readmission r = Some c}"
proof (rule set_eqI)
  fix c
  have "c \<in> set (dept_vals rs d) \<longleftrightarrow> Some c \<in> set (map Readmission (filter (in_dept d) rs))"
    by (simp add: dept_vals_def set_dropna)
  also have "\<dots> \<longleftrightarrow> (\<exists>r \<in> set rs. Department r = Some d \<and> Readmission r = Some c)"
    by (force simp: in_dept_def)
  finally show "c \<in> set (dept_vals rs d) \<longleftrightarrow>
      c \<in> {c. \<exists>r \<in> set rs. Department r = Some d \<and> Readmission r = Some c}"
    by simp
qed



text \<open>Claim C7. For every table, the per-department readmission table has exactly the columns
  \<open>No\<close> and \<open>Yes\<close>, in that order; its departments are those with at least one non-missing
  \<open>Readmission\<close> cell; every row holds a number in both columns, and the number is 0 for a
  category that no row of the department has.\<close>

theorem by_dept_no_yes_columns:
  "fcolumns (by_dept rs) = [''No'', ''Yes''] \<and>
   set (map fst (frows (by_dept rs))) =
     {d. \<exists>r \<in> set rs. Department r = Some d \<and> Readmission r \<noteq> None} \<and>
   (\<forall>(d, vs) \<in> set (frows (by_dept rs)).
      \<exists>n y. vs = [Some n, Some y] \<and>
        ((\<forall>r \<in> set rs. Department r = Some d \<longrightarrow> Readmission r \<noteq> Some ''No'') \<longrightarrow> n = 0) \<and>
        ((\<forall>r \<in> set rs. Department r = Some d \<longrightarrow> Readmission r \<noteq> Some ''Yes'') \<longrightarrow> y = 0))"
proof (intro conjI)
  show "fcolumns (by_dept rs) = [''No'', ''Yes'']"
    by (simp add: by_dept_frame_of frame_of_def)
  have "\<And>d. dept_vals rs d \<noteq> [] \<longleftrightarrow> (\<exists>r \<in> set rs. Department r = Some d \<and> Readmission r \<noteq> None)"
  proof -
    fix d
    have "dept_vals rs d \<noteq> [] \<longleftrightarrow> (\<exists>c. c \<in> set (dept_vals rs d))"
      by (cases "dept_vals rs d") auto
    also have "\<dots> \<longleftrightarrow> (\<exists>r \<in> set rs. Department r = Some d \<and> Readmission r \<noteq> None)"
      unfolding set_dept_vals by auto
    finally show "dept_vals rs d \<noteq> [] \<longleftrightarrow> (\<exists>r \<in> set rs. Department r = Some d \<and> Readmission r \<noteq> None)" .
  qed
  then show "set (map fst (frows (by_dept rs))) =
     {d. \<exists>r \<in> set rs. Department r = Some d \<and> Readmission r \<noteq> None}"
    using dept_pct_departments [of _ rs] by (simp only: by_dept_index set_sort set_remdups) blast
  show "\<forall>(d, vs) \<in> set (frows (by_dept rs)).
      \<exists>n y. vs = [Some n, Some y] \<and>
        ((\<forall>r \<in> set rs. Department r = Some d \<longrightarrow> Readmission r \<noteq> Some ''No'') \<longrightarrow> n = 0) \<and>
        ((\<forall>r \<in> set rs. Department r = Some d \<longrightarrow> Readmission r \<noteq> Some ''Yes'') \<longrightarrow> y = 0)"
  proof (intro ballI, clarify)
    fix d vs
    assume "(d, vs) \<in> set (frows (by_dept rs))"
    then have vs: "vs = [Some (round_dp 1 (exact_pct rs d ''No'')), Some (round_dp 1 (exact_pct rs d ''Yes''))]"
      using by_dept_row by blast
    have "\<And>c. \<forall>r \<in> set rs. Department r = Some d \<longrightarrow> Readmission r \<noteq> Some c \<Longrightarrow>
               round_dp 1 (exact_pct rs d c) = 0"
      using exact_pct_absent [of rs d] by (simp add: in_dept_def round_dp_zero)
    then show "\<exists>n y. vs = [Some n, Some y] \<and>
        ((\<forall>r \<in> set rs. Department r = Some d \<longrightarrow> Readmission r \<noteq> Some ''No'') \<longrightarrow> n = 0) \<and>
        ((\<forall>r \<in> set rs. Department r = Some d \<longrightarrow> Readmission r \<noteq> Some ''Yes'') \<longrightarrow> y = 0)"
      using vs by blast
  qed
qed

text \<open>The theorem at \<open>thirds\<close>, whose ICU has no \<open>Yes\<close>.\<close>

theorem by_dept_no_yes_columns_witness:
  "fcolumns (by_dept thirds) = [''No'', ''Yes''] \<and>
   (''ICU'', [Some 100, Some 0]) \<in> set (frows (by_dept thirds)) \<and>
   map Readmission (filter (\<lambda>r. Department r = Some ''ICU'') thirds) = [Some ''No''] \<and>
   (\<exists>n y. [Some 100, Some 0] = [Some n, Some (y :: rat)] \<and> y = 0)"
proof -
  have m: "(''ICU'', [Some 100, Some 0]) \<in> set (frows (by_dept thirds))"
    by code_simp
  have a: "\<forall>r \<in> set thirds. Department r = Some ''ICU'' \<longrightarrow> Readmission r \<noteq> Some ''Yes''"
    by (simp add: thirds_def mk_row_def)
  note t = by_dept_no_yes_columns [of thirds]
  have "fcolumns (by_dept thirds) = [''No'', ''Yes'']" using t by blast
  moreover have "\<exists>n y. [Some 100, Some 0] = [Some n, Some (y :: rat)] \<and> y = 0"
    using t m a by blast
  moreover have "map Readmission (filter (\<lambda>r. Department r = Some ''ICU'') thirds) = [Some ''No'']"
    by (simp add: thirds_def mk_row_def)
  ultimately show ?thesis using m by blast
qed







text \<open>Claim C9. The count that the monthly series reports for a month is the number of rows
  whose admission date parsed, falls in that month, and whose \<open>Patient_ID\<close> is not missing. The
  months of the series are the months of the parsed admission dates, each once, in ascending
  order.\<close>

theorem monthly_counts_parsed_identified:
  "(\<forall>(k, n) \<in> set (monthly rs).
      n = length (filter (\<lambda>r. \<exists>t. Admission_Date r = Some t \<and> year_month t = k \<and>
                                 Patient_ID r \<noteq> None) rs)) \<and>
   set (map fst (monthly rs)) = {year_month t |t. \<exists>r \<in> set rs. Admission_Date r = Some t} \<and>
   distinct (map fst (monthly rs)) \<and> sorted (map fst (monthly rs))"
proof (intro conjI)
  show "\<forall>(k, n) \<in> set (monthly rs).
      n = length (filter (\<lambda>r. \<exists>t. Admission_Date r = Some t \<and> year_month t = k \<and>
                                 Patient_ID r \<noteq> None) rs)"
    using monthly_count by blast
  show "set (map fst (monthly rs)) = {year_month t |t. \<exists>r \<in> set rs. Admission_Date r = Some t}"
    by (rule monthly_keys)
  show "distinct (map fst (monthly rs))" "sorted (map fst (monthly rs))"
    using monthly_keys_sorted by blast+
qed

text \<open>The theorem at \<open>visits\<close>: of the two January admissions one has no patient identifier, and
  January is reported with 1.\<close>

theorem monthly_counts_parsed_identified_witness:
  "(midnight 2024 1 1, 1) \<in> set (monthly visits) \<and>
   length (filter (\<lambda>r. \<exists>t. Admission_Date r = Some t \<and> year_month t = midnight 2024 1 1 \<and>
                            Patient_ID r \<noteq> None) visits) = 1 \<and>
   length (filter (\<lambda>r. \<exists>t. Admission_Date r = Some t \<and> year_month t = midnight 2024 1 1) visits) = 2 \<and>
   length visits = 4"
proof -
  have m: "(midnight 2024 1 1, 1) \<in> set (monthly visits)" by code_simp
  have y: "year_month (midnight 2024 1 10) = midnight 2024 1 1"
    "year_month (midnight 2024 1 15) = midnight 2024 1 1"
    "year_month (midnight 2024 2 9) \<noteq> midnight 2024 1 1"
    by code_simp+
  from monthly_counts_parsed_identified [of visits] m
  have "1 = length (filter (\<lambda>r. \<exists>t. Admission_Date r = Some t \<and> year_month t = midnight 2024 1 1 \<and>
                            Patient_ID r \<noteq> None) visits)"
    by blast
  moreover have "length (filter (\<lambda>r. \<exists>t. Admission_Date r = Some t \<and> year_month t = midnight 2024 1 1) visits) = 2"
    using y by (simp add: visits_def mk_row_def)
  moreover have "length visits = 4" by (simp add: visits_def)
  ultimately show ?thesis using m by simp
qed


end
